theory Spec2Isabelle
  imports Main "HOL-Library.AList"
begin

section \<open>The verifier service of vcxagent-core\<close>

text \<open>
  The development embeds \<^verbatim>\<open>agents/node/vcxagent-core/src/services/service-verifier.js\<close>.
  The factory \<^verbatim>\<open>createServiceVerifier\<close> receives its collaborators
  (\<^verbatim>\<open>logger\<close>, \<^verbatim>\<open>loadConnection\<close>, \<^verbatim>\<open>saveProof\<close>, \<^verbatim>\<open>loadProof\<close>,
  \<^verbatim>\<open>listProofIds\<close>) and uses the class \<^verbatim>\<open>Proof\<close> of the node wrapper and
  \<^verbatim>\<open>sleep-promise\<close>. Every \<^verbatim>\<open>async\<close> function is a program over an explicit
  world; an exception is the left summand of the result, and the world reached when the
  exception was thrown is returned with it, since JavaScript undoes nothing.
  Interleavings with other callers at the \<^verbatim>\<open>await\<close> points are outside the model:
  each call runs alone.
\<close>

subsection \<open>Errors, effects and the world\<close>

type_synonym id = string

text \<open>The error kinds named by the specification.\<close>

datatype error = NotFound | DuplicateId | TransportError | ValidationError

text \<open>
  The three template strings handed to the logger, with their interpolated values kept
  as arguments (so that neither \<^verbatim>\<open>JSON.stringify\<close> nor the printing of a state has
  to be modelled). The proof criteria \<open>'d\<close> are plain data, which
  \<^verbatim>\<open>JSON.stringify\<close> accepts.
\<close>

datatype ('d, 'st) logmsg =
    CreatingProof id 'd
  | ProofStateLine id 'st
  | GetVcxProofNotRecommended

text \<open>The methods of the wrapper's \<^verbatim>\<open>Proof\<close> objects that the service calls.\<close>

datatype vcx_method =
  ProofCreate | RequestProof | GetState | GetProofRequestMessage | UpdateStateV2

text \<open>
  Every call that leaves the service is recorded, in order, in the trace of the world:
  the two logger levels used, the sleep with its argument in milliseconds, the accesses
  to the connection and proof stores, and the calls into the wrapper.
\<close>

datatype ('d, 'st) event =
    Info "('d, 'st) logmsg"
  | Warn "('d, 'st) logmsg"
  | Sleep nat
  | LoadConnection id
  | LoadProof id
  | SaveProof id
  | ListProofIds
  | VcxCall vcx_method

text \<open>
  The world: the connection store and the proof store (association lists, the keys in
  insertion order), the state \<open>'n\<close> of everything the wrapper itself can reach (the
  native library, the agency, the network), and the trace.
\<close>

record ('c, 'p, 'n, 'd, 'st) world =
  connections :: "(id \<times> 'c) list"
  proofs :: "(id \<times> 'p) list"
  vcx_state :: 'n
  trace :: "('d, 'st) event list"

text \<open>
  A program returns its result or the exception thrown, and the world it leaves.
  \<open>await m f\<close> runs \<open>m\<close> and continues with \<open>f\<close> on its result; an exception of
  \<open>m\<close> ends the program. The same combinator sequences the calls of the logger, which
  the source does not await.
\<close>

type_synonym ('w, 'a) prog = "'w \<Rightarrow> (error + 'a) \<times> 'w"

definition ret :: "'a \<Rightarrow> ('w, 'a) prog" where
  "ret x w = (Inr x, w)"

definition await :: "('w, 'a) prog \<Rightarrow> ('a \<Rightarrow> ('w, 'b) prog) \<Rightarrow> ('w, 'b) prog" where
  "await m f w = (case m w of (Inl e, w') \<Rightarrow> (Inl e, w') | (Inr x, w') \<Rightarrow> f x w')"

definition emit ::
  "('d, 'st) event \<Rightarrow> ('c, 'p, 'n, 'd, 'st) world \<Rightarrow> ('c, 'p, 'n, 'd, 'st) world" where
  "emit e w = w\<lparr>trace := trace w @ [e]\<rparr>"

subsection \<open>The injected collaborators\<close>

text \<open>The logging sink accepts the message; it does not fail.\<close>

definition logger_info ::
  "('d, 'st) logmsg \<Rightarrow> (('c, 'p, 'n, 'd, 'st) world, unit) prog" where
  "logger_info m w = (Inr (), emit (Info m) w)"

definition logger_warn ::
  "('d, 'st) logmsg \<Rightarrow> (('c, 'p, 'n, 'd, 'st) world, unit) prog" where
  "logger_warn m w = (Inr (), emit (Warn m) w)"

text \<open>\<^verbatim>\<open>sleep(ms)\<close> of sleep-promise: resolves after \<open>ms\<close> milliseconds.\<close>

definition sleep :: "nat \<Rightarrow> (('c, 'p, 'n, 'd, 'st) world, unit) prog" where
  "sleep ms w = (Inr (), emit (Sleep ms) w)"

text \<open>
  The functions \<^verbatim>\<open>loadConnection\<close>, \<^verbatim>\<open>loadProof\<close>, \<^verbatim>\<open>saveProof\<close> and
  \<^verbatim>\<open>listProofIds\<close> are handed to the factory by the agent and their code is not
  among the sources; the specification gives their contracts in its sections 4.1, 4.2
  and 6. The stores hold record values: what a load returns is a copy, and a change
  made to it reaches the store only through a save.
\<close>

text \<open>
  Modelled from the spec: \<^verbatim>\<open>loadConnection\<close> is missing from the sources.
  \<open>load(connectionId)\<close> returns a connection handle or fails with \<open>NotFound\<close>.
\<close>

definition loadConnection :: "id \<Rightarrow> (('c, 'p, 'n, 'd, 'st) world, 'c) prog" where
  "loadConnection connectionId w =
     (case map_of (connections w) connectionId of
        None \<Rightarrow> (Inl NotFound, emit (LoadConnection connectionId) w)
      | Some c \<Rightarrow> (Inr c, emit (LoadConnection connectionId) w))"

text \<open>
  Modelled from the spec: \<^verbatim>\<open>loadProof\<close> is missing from the sources.
  \<open>load(proofId)\<close> fails with \<open>NotFound\<close> if the id is absent.
\<close>

definition loadProof :: "id \<Rightarrow> (('c, 'p, 'n, 'd, 'st) world, 'p) prog" where
  "loadProof proofId w =
     (case map_of (proofs w) proofId of
        None \<Rightarrow> (Inl NotFound, emit (LoadProof proofId) w)
      | Some p \<Rightarrow> (Inr p, emit (LoadProof proofId) w))"

text \<open>
  Modelled from the spec: \<^verbatim>\<open>saveProof\<close> is missing from the sources.
  \<open>save(proofId, record)\<close> persists or overwrites.
\<close>

definition saveProof :: "id \<Rightarrow> 'p \<Rightarrow> (('c, 'p, 'n, 'd, 'st) world, unit) prog" where
  "saveProof proofId p w =
     (Inr (), emit (SaveProof proofId) (w\<lparr>proofs := AList.update proofId p (proofs w)\<rparr>))"

text \<open>
  Modelled from the spec: \<^verbatim>\<open>listProofIds\<close> is missing from the sources.
  \<open>listIds()\<close> returns all known ids as a sequence; the order here is that of the
  first save of each id.
\<close>

definition listProofIds :: "(('c, 'p, 'n, 'd, 'st) world, id list) prog" where
  "listProofIds w = (Inr (map fst (proofs w)), emit ListProofIds w)"

subsection \<open>The wrapper's Proof class, as a parameter\<close>

text \<open>
  The class \<^verbatim>\<open>Proof\<close> comes from \<^verbatim>\<open>@hyperledger/node-vcx-wrapper\<close>; the service
  is modelled for every behaviour of it. A method receives the object and the wrapper's
  state and may throw; since a method of a JavaScript object may change the object, each
  method that succeeds returns the object as it then is. \<^verbatim>\<open>Proof.create\<close> is static
  and returns the new object.
\<close>

record ('c, 'p, 'n, 'd, 'st, 'm) vcx =
  proof_create :: "'d \<Rightarrow> 'n \<Rightarrow> (error + 'p) \<times> 'n"
  proof_requestProof :: "'p \<Rightarrow> 'c \<Rightarrow> 'n \<Rightarrow> (error + 'p) \<times> 'n"
  proof_getState :: "'p \<Rightarrow> 'n \<Rightarrow> (error + 'st \<times> 'p) \<times> 'n"
  proof_getProofRequestMessage :: "'p \<Rightarrow> 'n \<Rightarrow> (error + 'm \<times> 'p) \<times> 'n"
  proof_updateStateV2 :: "'p \<Rightarrow> 'c \<Rightarrow> 'n \<Rightarrow> (error + 'st \<times> 'p) \<times> 'n"

text \<open>A call into the wrapper: recorded in the trace, run on the wrapper's state.\<close>

definition vcx_call ::
  "vcx_method \<Rightarrow> ('n \<Rightarrow> (error + 'a) \<times> 'n) \<Rightarrow> (('c, 'p, 'n, 'd, 'st) world, 'a) prog" where
  "vcx_call meth f w =
     (case f (vcx_state w) of
        (r, n') \<Rightarrow> (r, (emit (VcxCall meth) w)\<lparr>vcx_state := n'\<rparr>))"

subsection \<open>The service\<close>

text \<open>
  \<^verbatim>\<open>
  async function createProof (proofId, proofData) {
    logger.info(`Verifier creating proof ${proofId}, proofData=${JSON.stringify(proofData)}`)
    await sleep(1000)
    const proof = await Proof.create(proofData)
    await saveProof(proofId, proof)
    return proof
  }
  \<close>
\<close>

definition createProof ::
  "('c, 'p, 'n, 'd, 'st, 'm) vcx \<Rightarrow> id \<Rightarrow> 'd \<Rightarrow> (('c, 'p, 'n, 'd, 'st) world, 'p) prog" where
  "createProof lib proofId proofData =
     await (logger_info (CreatingProof proofId proofData)) (\<lambda>_.
     await (sleep 1000) (\<lambda>_.
     await (vcx_call ProofCreate (proof_create lib proofData)) (\<lambda>proof.
     await (saveProof proofId proof) (\<lambda>_.
     ret proof))))"

text \<open>
  \<^verbatim>\<open>
  async function sendProofRequest (connectionId, proofId) {
    const connection = await loadConnection(connectionId)
    const proof = await loadProof(proofId)
    await proof.requestProof(connection)
    const state = await proof.getState()
    const proofRequestMessage = await proof.getProofRequestMessage()
    await saveProof(proofId, proof)
    return { state, proofRequestMessage }
  }
  \<close>
  The returned object is the pair of its two fields.
\<close>

definition sendProofRequest ::
  "('c, 'p, 'n, 'd, 'st, 'm) vcx \<Rightarrow> id \<Rightarrow> id \<Rightarrow>
     (('c, 'p, 'n, 'd, 'st) world, 'st \<times> 'm) prog" where
  "sendProofRequest lib connectionId proofId =
     await (loadConnection connectionId) (\<lambda>connection.
     await (loadProof proofId) (\<lambda>proof.
     await (vcx_call RequestProof (proof_requestProof lib proof connection)) (\<lambda>proof1.
     await (vcx_call GetState (proof_getState lib proof1)) (\<lambda>(state, proof2).
     await (vcx_call GetProofRequestMessage (proof_getProofRequestMessage lib proof2))
       (\<lambda>(proofRequestMessage, proof3).
     await (saveProof proofId proof3) (\<lambda>_.
     ret (state, proofRequestMessage)))))))"

text \<open>
  \<^verbatim>\<open>
  async function proofUpdate (proofId, connectionId) {
    const proof = await loadProof(proofId)
    const connection = await loadConnection(connectionId)
    const state = await proof.updateStateV2(connection)
    await saveProof(proofId, proof)
    return state
  }
  \<close>
\<close>

definition proofUpdate ::
  "('c, 'p, 'n, 'd, 'st, 'm) vcx \<Rightarrow> id \<Rightarrow> id \<Rightarrow> (('c, 'p, 'n, 'd, 'st) world, 'st) prog" where
  "proofUpdate lib proofId connectionId =
     await (loadProof proofId) (\<lambda>proof.
     await (loadConnection connectionId) (\<lambda>connection.
     await (vcx_call UpdateStateV2 (proof_updateStateV2 lib proof connection))
       (\<lambda>(state, proof1).
     await (saveProof proofId proof1) (\<lambda>_.
     ret state))))"

text \<open>
  \<^verbatim>\<open>
  async function getState (proofId) {
    const proof = await loadProof(proofId)
    return await proof.getState()
  }
  \<close>
\<close>

definition getState ::
  "('c, 'p, 'n, 'd, 'st, 'm) vcx \<Rightarrow> id \<Rightarrow> (('c, 'p, 'n, 'd, 'st) world, 'st) prog" where
  "getState lib proofId =
     await (loadProof proofId) (\<lambda>proof.
     await (vcx_call GetState (proof_getState lib proof)) (\<lambda>(state, proof1).
     ret state))"

text \<open>
  \<^verbatim>\<open>
  async function listIds () {
    return listProofIds()
  }
  \<close>
\<close>

definition listIds :: "(('c, 'p, 'n, 'd, 'st) world, id list) prog" where
  "listIds = listProofIds"

text \<open>
  \<^verbatim>\<open>
  async function printInfo (connectionIds) {
    for (const id of connectionIds) {
      const state = await getState(id)
      logger.info(`Proof ${id} state=${state}`)
    }
  }
  \<close>
  The loop has no \<^verbatim>\<open>try\<close>: an exception of \<^verbatim>\<open>getState\<close> leaves it.
\<close>

fun printInfo ::
  "('c, 'p, 'n, 'd, 'st, 'm) vcx \<Rightarrow> id list \<Rightarrow> (('c, 'p, 'n, 'd, 'st) world, unit) prog" where
  "printInfo lib [] = ret ()"
| "printInfo lib (i # connectionIds) =
     await (getState lib i) (\<lambda>state.
     await (logger_info (ProofStateLine i state)) (\<lambda>_.
     printInfo lib connectionIds))"

text \<open>
  \<^verbatim>\<open>
  async function getVcxProof (proofId) {
    logger.warn('Usage of getVcxProof is not recommended. ...')
    return loadProof(proofId)
  }
  \<close>
\<close>

definition getVcxProof :: "id \<Rightarrow> (('c, 'p, 'n, 'd, 'st) world, 'p) prog" where
  "getVcxProof proofId =
     await (logger_warn GetVcxProofNotRecommended) (\<lambda>_.
     loadProof proofId)"

subsection \<open>The proof-exchange state machine of the specification\<close>

text \<open>
  The protocol engine behind \<^verbatim>\<open>Proof\<close> (the wrapper and the native library under
  it) is not among the sources; the specification describes it in its sections 3 and
  4.3. The definitions of this subsection follow that description and give one
  instance of the parameter \<open>lib\<close> of the service.
\<close>

text \<open>Modelled from the spec: the states of section 4.3.\<close>

datatype proof_state =
  INITIAL | REQUEST_SENT | PRESENTATION_RECEIVED | VERIFIED | REJECTED | FAILED

text \<open>
  Modelled from the spec: the record of the data model of section 3, whose class is
  missing from the sources. \<^verbatim>\<open>Proof.create(proofData)\<close> is not
  given the \<open>proofId\<close>, which is the key of the store, so the record built by it has
  no such field; the back-reference to the connection is the handle passed to
  \<open>requestProof\<close>.
\<close>

record ('c, 'd, 'm) proof_exchange_record =
  state :: proof_state
  proofRequestPayload :: 'd
  proofRequestMessage :: "'m option"
  connectionRef :: "'c option"
  lastError :: "string option"

text \<open>
  Modelled from the spec: what the counterparty can answer to a proof request, a
  presentation that is valid or not, or a decline.
\<close>

datatype incoming = Presentation bool | Decline

text \<open>
  Modelled from the spec: the wrapper's state as far as the specification speaks of it,
  its code being missing from the sources: the messages dispatched
  so far, with the connection each went through; the messages of the counterparty not
  yet polled; the connections whose transport fails.
\<close>

record ('c, 'm) agency =
  sent :: "('c \<times> 'm) list"
  inbox :: "('c \<times> incoming) list"
  down :: "'c list"

text \<open>
  Modelled from the spec: \<^verbatim>\<open>Proof.create\<close> is missing from the sources. The
  transition \<open>(none) \<rightarrow> INITIAL\<close> on \<open>create(proofData)\<close> builds the internal
  proof-request payload from the caller's criteria; malformed criteria are a
  \<open>ValidationError\<close>. Which criteria are well formed is the parameter \<open>valid\<close>.
\<close>

definition sm_create ::
  "('d \<Rightarrow> bool) \<Rightarrow> 'd \<Rightarrow> ('c, 'm) agency \<Rightarrow>
     (error + ('c, 'd, 'm) proof_exchange_record) \<times> ('c, 'm) agency" where
  "sm_create valid proofData n =
     (if valid proofData
      then (Inr \<lparr>state = INITIAL, proofRequestPayload = proofData,
                 proofRequestMessage = None, connectionRef = None, lastError = None\<rparr>, n)
      else (Inl ValidationError, n))"

text \<open>
  Modelled from the spec: \<^verbatim>\<open>requestProof\<close> is missing from the sources. The
  transition \<open>INITIAL \<rightarrow> REQUEST_SENT\<close> generates the proof request message (by the
  parameter \<open>encode\<close>, from the payload), keeps it in the record and dispatches it
  through the connection. A transport error is surfaced as \<open>TransportError\<close> and
  leaves the record in its prior state. The specification has no transition for
  \<open>requestProof\<close> from another state; here such a call is refused and changes nothing.
\<close>

definition sm_requestProof ::
  "('d \<Rightarrow> 'm) \<Rightarrow> ('c, 'd, 'm) proof_exchange_record \<Rightarrow> 'c \<Rightarrow> ('c, 'm) agency \<Rightarrow>
     (error + ('c, 'd, 'm) proof_exchange_record) \<times> ('c, 'm) agency" where
  "sm_requestProof encode p connection n =
     (if connection \<in> set (down n) then (Inl TransportError, n)
      else if state p = INITIAL
      then (let m = encode (proofRequestPayload p)
            in (Inr (p\<lparr>state := REQUEST_SENT, proofRequestMessage := Some m,
                       connectionRef := Some connection\<rparr>),
                n\<lparr>sent := sent n @ [(connection, m)]\<rparr>))
      else (Inl ValidationError, n))"

text \<open>
  Modelled from the spec: the wrapper's \<^verbatim>\<open>getState\<close> is missing from the sources.
  It is a pure read with no side effects.
\<close>

definition sm_getState ::
  "('c, 'd, 'm) proof_exchange_record \<Rightarrow> ('c, 'm) agency \<Rightarrow>
     (error + proof_state \<times> ('c, 'd, 'm) proof_exchange_record) \<times> ('c, 'm) agency" where
  "sm_getState p n = (Inr (state p, p), n)"

text \<open>
  Modelled from the spec: \<^verbatim>\<open>getProofRequestMessage\<close> is missing from the sources.
  The message is computed once per request and cached in the record; the getter returns
  the cached message and neither generates nor sends anything. Before any request there
  is no message to return, which is reported as \<open>NotFound\<close>.
\<close>

definition sm_getProofRequestMessage ::
  "('c, 'd, 'm) proof_exchange_record \<Rightarrow> ('c, 'm) agency \<Rightarrow>
     (error + 'm \<times> ('c, 'd, 'm) proof_exchange_record) \<times> ('c, 'm) agency" where
  "sm_getProofRequestMessage p n =
     (case proofRequestMessage p of
        None \<Rightarrow> (Inl NotFound, n)
      | Some m \<Rightarrow> (Inr (m, p), n))"

text \<open>
  Modelled from the spec: \<^verbatim>\<open>updateStateV2\<close> is missing from the sources. A poll
  in \<open>REQUEST_SENT\<close> takes the oldest message of the counterparty on the connection:
  a valid presentation leads to \<open>VERIFIED\<close>, an invalid one or a decline to
  \<open>REJECTED\<close> with the reason kept in \<open>lastError\<close>, and with no new message the
  poll is a no-op. A transport error is surfaced as \<open>TransportError\<close> and leaves the
  record in its prior state. In the other states the specification gives the poll no
  transition; here it reports the state and changes nothing.
\<close>

definition sm_updateStateV2 ::
  "('c, 'd, 'm) proof_exchange_record \<Rightarrow> 'c \<Rightarrow> ('c, 'm) agency \<Rightarrow>
     (error + proof_state \<times> ('c, 'd, 'm) proof_exchange_record) \<times> ('c, 'm) agency" where
  "sm_updateStateV2 p connection n =
     (if connection \<in> set (down n) then (Inl TransportError, n)
      else if state p \<noteq> REQUEST_SENT then (Inr (state p, p), n)
      else (case map_of (inbox n) connection of
              None \<Rightarrow> (Inr (REQUEST_SENT, p), n)
            | Some (Presentation True) \<Rightarrow>
                (Inr (VERIFIED, p\<lparr>state := VERIFIED\<rparr>),
                 n\<lparr>inbox := remove1 (connection, Presentation True) (inbox n)\<rparr>)
            | Some (Presentation False) \<Rightarrow>
                (Inr (REJECTED, p\<lparr>state := REJECTED, lastError := Some ''invalid''\<rparr>),
                 n\<lparr>inbox := remove1 (connection, Presentation False) (inbox n)\<rparr>)
            | Some Decline \<Rightarrow>
                (Inr (REJECTED, p\<lparr>state := REJECTED, lastError := Some ''declined''\<rparr>),
                 n\<lparr>inbox := remove1 (connection, Decline) (inbox n)\<rparr>)))"

text \<open>
  Modelled from the spec: the five methods above, together, as the wrapper that the
  service is given.
\<close>

definition spec_vcx ::
  "('d \<Rightarrow> bool) \<Rightarrow> ('d \<Rightarrow> 'm) \<Rightarrow>
     ('c, ('c, 'd, 'm) proof_exchange_record, ('c, 'm) agency, 'd, proof_state, 'm) vcx" where
  "spec_vcx valid encode =
     \<lparr>proof_create = sm_create valid,
      proof_requestProof = sm_requestProof encode,
      proof_getState = sm_getState,
      proof_getProofRequestMessage = sm_getProofRequestMessage,
      proof_updateStateV2 = sm_updateStateV2\<rparr>"

subsection \<open>Observations on traces and on successive calls\<close>

fun is_sleep :: "('d, 'st) event \<Rightarrow> bool" where
  "is_sleep (Sleep ms) = True"
| "is_sleep _ = False"

text \<open>Whether some sleep follows the first call of \<^verbatim>\<open>Proof.create\<close> in a trace.\<close>

fun sleeps_after_create :: "('d, 'st) event list \<Rightarrow> bool" where
  "sleeps_after_create [] = False"
| "sleeps_after_create (e # es) =
     (if e = VcxCall ProofCreate then list_ex is_sleep es else sleeps_after_create es)"

text \<open>The events that read or write the proof store.\<close>

fun touches_proof_store :: "('d, 'st) event \<Rightarrow> bool" where
  "touches_proof_store (LoadProof i) = True"
| "touches_proof_store (SaveProof i) = True"
| "touches_proof_store ListProofIds = True"
| "touches_proof_store _ = False"

text \<open>
  The events that \<open>printInfo\<close> adds for one id when the wrapper is the state machine
  of the specification: the load alone for an unknown id; the load, the wrapper's
  \<open>getState\<close> and the info line with the state of the stored record otherwise.
\<close>

definition info_events ::
  "(id \<times> ('c, 'd, 'm) proof_exchange_record) list \<Rightarrow> id \<Rightarrow> ('d, proof_state) event list" where
  "info_events store i =
     (case map_of store i of
        None \<Rightarrow> [LoadProof i]
      | Some p \<Rightarrow> [LoadProof i, VcxCall GetState, Info (ProofStateLine i (state p))])"

text \<open>
  A caller invoking the same getter of a \<^verbatim>\<open>Proof\<close> object two times in succession,
  \<^verbatim>\<open>const a = await proof.m(); const b = await proof.m()\<close>: the second call sees the
  object and the wrapper's state as the first one left them.
\<close>

definition twice ::
  "('p \<Rightarrow> 'n \<Rightarrow> (error + 'a \<times> 'p) \<times> 'n) \<Rightarrow> 'p \<Rightarrow> 'n \<Rightarrow> (error + ('a \<times> 'a) \<times> 'p) \<times> 'n" where
  "twice method p n =
     (case method p n of
        (Inl e, n1) \<Rightarrow> (Inl e, n1)
      | (Inr (x1, p1), n1) \<Rightarrow>
          (case method p1 n1 of
             (Inl e, n2) \<Rightarrow> (Inl e, n2)
           | (Inr (x2, p2), n2) \<Rightarrow> (Inr ((x1, x2), p2), n2)))"

subsection \<open>A small agent\<close>

text \<open>
  One connection \<open>conn1\<close> (handle 7), a proof \<open>p1\<close> whose request has been sent over
  it, a proof \<open>p0\<close> just created. Criteria are strings, valid when not empty.
\<close>

definition demo_lib ::
  "(nat, (nat, string, string) proof_exchange_record, (nat, string) agency,
    string, proof_state, string) vcx" where
  "demo_lib = spec_vcx (\<lambda>d. d \<noteq> []) (\<lambda>d. ''request:'' @ d)"

definition demo_record :: "(nat, string, string) proof_exchange_record" where
  "demo_record =
     \<lparr>state = REQUEST_SENT, proofRequestPayload = ''name'',
      proofRequestMessage = Some ''request:name'', connectionRef = Some 7,
      lastError = None\<rparr>"

definition fresh_record :: "(nat, string, string) proof_exchange_record" where
  "fresh_record =
     \<lparr>state = INITIAL, proofRequestPayload = ''age'',
      proofRequestMessage = None, connectionRef = None, lastError = None\<rparr>"

text \<open>The record \<open>p0\<close> and the agency once the request for \<open>p0\<close> has gone out.\<close>

definition sent_record :: "(nat, string, string) proof_exchange_record" where
  "sent_record =
     \<lparr>state = REQUEST_SENT, proofRequestPayload = ''age'',
      proofRequestMessage = Some ''request:age'', connectionRef = Some 7,
      lastError = None\<rparr>"

definition sent_agency :: "(nat, string) agency" where
  "sent_agency =
     \<lparr>sent = [(7, ''request:name''), (7, ''request:age'')], inbox = [], down = []\<rparr>"

definition demo_agency :: "(nat, string) agency" where
  "demo_agency = \<lparr>sent = [(7, ''request:name'')], inbox = [], down = []\<rparr>"

definition demo_world ::
  "(nat, (nat, string, string) proof_exchange_record, (nat, string) agency,
    string, proof_state) world" where
  "demo_world =
     \<lparr>connections = [(''conn1'', 7)],
      proofs = [(''p1'', demo_record), (''p0'', fresh_record)],
      vcx_state = demo_agency,
      trace = []\<rparr>"

text \<open>The same agent with the transport of connection 7 failing.\<close>

definition down_world ::
  "(nat, (nat, string, string) proof_exchange_record, (nat, string) agency,
    string, proof_state) world" where
  "down_world = demo_world\<lparr>vcx_state := demo_agency\<lparr>down := [7]\<rparr>\<rparr>"

section \<open>Properties\<close>

lemmas prog_defs = ret_def await_def emit_def logger_info_def logger_warn_def sleep_def
  loadConnection_def loadProof_def saveProof_def vcx_call_def

lemmas sm_defs = spec_vcx_def sm_create_def sm_requestProof_def sm_getState_def
  sm_getProofRequestMessage_def sm_updateStateV2_def Let_def

lemmas demo_defs = demo_lib_def demo_world_def demo_record_def fresh_record_def
  demo_agency_def sent_record_def sent_agency_def

subsection \<open>What each operation does, step by step\<close>

lemma createProof_run:
  "createProof lib proofId proofData w =
     (case proof_create lib proofData (vcx_state w) of
        (Inl e, n') \<Rightarrow>
          (Inl e, w\<lparr>vcx_state := n',
                    trace := trace w @ [Info (CreatingProof proofId proofData), Sleep 1000,
                                        VcxCall ProofCreate]\<rparr>)
      | (Inr p, n') \<Rightarrow>
          (Inr p, w\<lparr>proofs := AList.update proofId p (proofs w), vcx_state := n',
                    trace := trace w @ [Info (CreatingProof proofId proofData), Sleep 1000,
                                        VcxCall ProofCreate, SaveProof proofId]\<rparr>))"
  by (simp add: createProof_def prog_defs split: prod.splits sum.splits)

lemma sendProofRequest_no_connection:
  "map_of (connections w) connectionId = None \<Longrightarrow>
   sendProofRequest lib connectionId proofId w =
     (Inl NotFound, w\<lparr>trace := trace w @ [LoadConnection connectionId]\<rparr>)"
  by (simp add: sendProofRequest_def prog_defs)

lemma getState_run:
  "getState lib proofId w =
     (case map_of (proofs w) proofId of
        None \<Rightarrow> (Inl NotFound, w\<lparr>trace := trace w @ [LoadProof proofId]\<rparr>)
      | Some p \<Rightarrow>
          (case proof_getState lib p (vcx_state w) of
             (Inl e, n') \<Rightarrow>
               (Inl e, w\<lparr>vcx_state := n',
                         trace := trace w @ [LoadProof proofId, VcxCall GetState]\<rparr>)
           | (Inr (st, p'), n') \<Rightarrow>
               (Inr st, w\<lparr>vcx_state := n',
                          trace := trace w @ [LoadProof proofId, VcxCall GetState]\<rparr>)))"
  by (auto simp: getState_def prog_defs split: prod.splits sum.splits option.splits)

lemma printInfo_append:
  "printInfo lib (xs @ ys) = await (printInfo lib xs) (\<lambda>_. printInfo lib ys)"
proof (induction xs)
  case Nil
  show ?case by (simp add: await_def ret_def fun_eq_iff)
next
  case (Cons i xs)
  show ?case
    by (simp add: Cons.IH await_def fun_eq_iff split: prod.splits sum.splits)
qed

lemma sendProofRequest_run:
  assumes "map_of (connections w) connectionId = Some c"
    and "map_of (proofs w) proofId = Some p"
  shows "sendProofRequest lib connectionId proofId w =
     (case proof_requestProof lib p c (vcx_state w) of
        (Inl e, n1) \<Rightarrow>
          (Inl e, w\<lparr>vcx_state := n1,
                    trace := trace w @ [LoadConnection connectionId, LoadProof proofId,
                                        VcxCall RequestProof]\<rparr>)
      | (Inr p1, n1) \<Rightarrow>
          (case proof_getState lib p1 n1 of
             (Inl e, n2) \<Rightarrow>
               (Inl e, w\<lparr>vcx_state := n2,
                         trace := trace w @ [LoadConnection connectionId, LoadProof proofId,
                                             VcxCall RequestProof, VcxCall GetState]\<rparr>)
           | (Inr (st, p2), n2) \<Rightarrow>
               (case proof_getProofRequestMessage lib p2 n2 of
                  (Inl e, n3) \<Rightarrow>
                    (Inl e, w\<lparr>vcx_state := n3,
                              trace := trace w @ [LoadConnection connectionId, LoadProof proofId,
                                                  VcxCall RequestProof, VcxCall GetState,
                                                  VcxCall GetProofRequestMessage]\<rparr>)
                | (Inr (msg, p3), n3) \<Rightarrow>
                    (Inr (st, msg),
                     w\<lparr>proofs := AList.update proofId p3 (proofs w), vcx_state := n3,
                       trace := trace w @ [LoadConnection connectionId, LoadProof proofId,
                                           VcxCall RequestProof, VcxCall GetState,
                                           VcxCall GetProofRequestMessage,
                                           SaveProof proofId]\<rparr>))))"
  using assms
  by (auto simp: sendProofRequest_def prog_defs split: prod.splits sum.splits)

lemma proofUpdate_run:
  assumes "map_of (proofs w) proofId = Some p"
    and "map_of (connections w) connectionId = Some c"
  shows "proofUpdate lib proofId connectionId w =
     (case proof_updateStateV2 lib p c (vcx_state w) of
        (Inl e, n1) \<Rightarrow>
          (Inl e, w\<lparr>vcx_state := n1,
                    trace := trace w @ [LoadProof proofId, LoadConnection connectionId,
                                        VcxCall UpdateStateV2]\<rparr>)
      | (Inr (st, p1), n1) \<Rightarrow>
          (Inr st, w\<lparr>proofs := AList.update proofId p1 (proofs w), vcx_state := n1,
                     trace := trace w @ [LoadProof proofId, LoadConnection connectionId,
                                         VcxCall UpdateStateV2, SaveProof proofId]\<rparr>))"
  using assms
  by (auto simp: proofUpdate_def prog_defs split: prod.splits sum.splits)

lemma getState_spec:
  "getState (spec_vcx valid encode) i v =
     (case map_of (proofs v) i of
        None \<Rightarrow> (Inl NotFound, v\<lparr>trace := trace v @ [LoadProof i]\<rparr>)
      | Some p \<Rightarrow> (Inr (state p), v\<lparr>trace := trace v @ [LoadProof i, VcxCall GetState]\<rparr>))"
  by (simp add: getState_run spec_vcx_def sm_getState_def split: option.splits)

lemma printInfo_spec_known:
  "\<forall>i \<in> set ids. map_of (proofs v) i \<noteq> None \<Longrightarrow>
   printInfo (spec_vcx valid encode) ids v =
     (Inr (), v\<lparr>trace := trace v @ concat (map (info_events (proofs v)) ids)\<rparr>)"
proof (induction ids arbitrary: v)
  case Nil
  show ?case by (simp add: ret_def)
next
  case (Cons i ids)
  from Cons.prems obtain p where p: "map_of (proofs v) i = Some p"
    by auto
  let ?v = "v\<lparr>trace := trace v @ [LoadProof i, VcxCall GetState, Info (ProofStateLine i (state p))]\<rparr>"
  have step: "printInfo (spec_vcx valid encode) (i # ids) v
                = printInfo (spec_vcx valid encode) ids ?v"
    by (simp add: await_def getState_spec p logger_info_def emit_def)
  from Cons.prems have "\<forall>j \<in> set ids. map_of (proofs ?v) j \<noteq> None"
    by simp
  from Cons.IH [OF this] step p show ?case
    by (simp add: info_events_def)
qed

subsection \<open>createProof\<close>

text \<open>
  Claim C1, as stated: \<open>createProof\<close> on a \<open>proofId\<close> that already exists fails
  with \<open>DuplicateId\<close> and leaves the existing record unmodified. The function never
  looks the id up: in the small agent, where \<open>p1\<close> exists with its request sent,
  \<open>createProof\<close> on \<open>p1\<close> succeeds and the store then holds a new \<open>INITIAL\<close>
  record under \<open>p1\<close>.
\<close>

theorem createProof_duplicate_counterexample:
  "map_of (proofs demo_world) ''p1'' = Some demo_record \<and>
   fst (createProof demo_lib ''p1'' ''age'' demo_world) = Inr fresh_record \<and>
   fst (createProof demo_lib ''p1'' ''age'' demo_world) \<noteq> Inl DuplicateId \<and>
   map_of (proofs (snd (createProof demo_lib ''p1'' ''age'' demo_world))) ''p1''
     = Some fresh_record \<and>
   fresh_record \<noteq> demo_record"
  by (simp add: createProof_run demo_defs sm_defs)

text \<open>
  Claim C1, amended: for every store state and every \<open>proofId\<close>, fresh or already
  present, \<open>createProof\<close> logs its line, sleeps 1000 milliseconds and calls
  \<^verbatim>\<open>Proof.create(proofData)\<close>; it never reads the proof store, and its result is
  the result of \<^verbatim>\<open>Proof.create\<close>. When that call succeeds, the new record is
  persisted under \<open>proofId\<close>, replacing a record already there and leaving the records
  under all other ids alone, and returned. When it throws, the exception is the result
  and the proof store is unchanged. With the state machine of the specification, valid
  criteria give a record in \<open>INITIAL\<close> with the criteria as its payload, invalid
  criteria give \<open>ValidationError\<close>, and \<open>DuplicateId\<close> is never the result.
\<close>

theorem createProof_persists_new_record:
  "createProof lib proofId proofData w =
     (case proof_create lib proofData (vcx_state w) of
        (Inl e, n') \<Rightarrow>
          (Inl e, w\<lparr>vcx_state := n',
                    trace := trace w @ [Info (CreatingProof proofId proofData), Sleep 1000,
                                        VcxCall ProofCreate]\<rparr>)
      | (Inr p, n') \<Rightarrow>
          (Inr p, w\<lparr>proofs := AList.update proofId p (proofs w), vcx_state := n',
                    trace := trace w @ [Info (CreatingProof proofId proofData), Sleep 1000,
                                        VcxCall ProofCreate, SaveProof proofId]\<rparr>)) \<and>
   fst (createProof lib proofId proofData w) = fst (proof_create lib proofData (vcx_state w)) \<and>
   LoadProof k \<notin> set (drop (length (trace w)) (trace (snd (createProof lib proofId proofData w)))) \<and>
   ListProofIds \<notin> set (drop (length (trace w)) (trace (snd (createProof lib proofId proofData w)))) \<and>
   (proof_create lib proofData (vcx_state w) = (Inr p, n') \<longrightarrow>
      fst (createProof lib proofId proofData w) = Inr p \<and>
      proofs (snd (createProof lib proofId proofData w)) = AList.update proofId p (proofs w) \<and>
      map_of (proofs (snd (createProof lib proofId proofData w))) proofId = Some p \<and>
      (\<forall>k. k \<noteq> proofId \<longrightarrow>
         map_of (proofs (snd (createProof lib proofId proofData w))) k = map_of (proofs w) k)) \<and>
   (proof_create lib proofData (vcx_state w) = (Inl e, n') \<longrightarrow>
      fst (createProof lib proofId proofData w) = Inl e \<and>
      proofs (snd (createProof lib proofId proofData w)) = proofs w) \<and>
   (valid d \<longrightarrow>
      (\<exists>r. fst (createProof (spec_vcx valid encode) i d v) = Inr r \<and> state r = INITIAL \<and>
           proofRequestPayload r = d \<and>
           map_of (proofs (snd (createProof (spec_vcx valid encode) i d v))) i = Some r)) \<and>
   (\<not> valid d \<longrightarrow>
      fst (createProof (spec_vcx valid encode) i d v) = Inl ValidationError \<and>
      proofs (snd (createProof (spec_vcx valid encode) i d v)) = proofs v) \<and>
   fst (createProof (spec_vcx valid encode) i d v) \<noteq> Inl DuplicateId"
  (is "?run \<and> ?result \<and> ?no_load \<and> ?no_list \<and> ?success \<and> ?failure \<and> ?sm_valid \<and> ?sm_invalid \<and> ?sm_no_dup")
proof (intro conjI)
  show ?run
    by (rule createProof_run)
  show ?result
    by (simp add: createProof_run split: prod.splits sum.splits)
  show ?no_load
    by (simp add: createProof_run split: prod.splits sum.splits)
  show ?no_list
    by (simp add: createProof_run split: prod.splits sum.splits)
  show ?success
    by (simp add: createProof_run update_conv')
  show ?failure
    by (simp add: createProof_run)
  have c: "proof_create (spec_vcx valid encode) d (vcx_state v)
          = (if valid d
             then Inr \<lparr>state = INITIAL, proofRequestPayload = d, proofRequestMessage = None,
                       connectionRef = None, lastError = None\<rparr>
             else Inl ValidationError, vcx_state v)"
    by (simp add: spec_vcx_def sm_create_def)
  show ?sm_valid
    by (simp add: createProof_run c update_conv')
  show ?sm_invalid
    by (simp add: createProof_run c)
  show ?sm_no_dup
    by (simp add: createProof_run c)
qed

theorem createProof_persists_new_record_witness:
  "proof_create demo_lib ''age'' (vcx_state demo_world) = (Inr fresh_record, demo_agency) \<and>
   ''age'' \<noteq> [] \<and>
   createProof demo_lib ''p1'' ''age'' demo_world
     = (Inr fresh_record,
        demo_world\<lparr>proofs := [(''p1'', fresh_record), (''p0'', fresh_record)],
                   trace := [Info (CreatingProof ''p1'' ''age''), Sleep 1000,
                             VcxCall ProofCreate, SaveProof ''p1'']\<rparr>) \<and>
   state fresh_record = INITIAL \<and>
   proof_create demo_lib [] (vcx_state demo_world) = (Inl ValidationError, demo_agency) \<and>
   fst (createProof demo_lib ''p1'' [] demo_world) = Inl ValidationError \<and>
   proofs (snd (createProof demo_lib ''p1'' [] demo_world)) = proofs demo_world"
proof -
  have h: "proof_create demo_lib ''age'' (vcx_state demo_world) = (Inr fresh_record, demo_agency)"
    by (simp add: demo_defs sm_defs)
  have f: "proof_create demo_lib [] (vcx_state demo_world) = (Inl ValidationError, demo_agency)"
    by (simp add: demo_defs sm_defs)
  have v: "''age'' \<noteq> []"
    by simp
  note t = createProof_persists_new_record
    [where lib = demo_lib and proofData = "''age''" and w = demo_world and proofId = "''p1''"
       and valid = "\<lambda>d. d \<noteq> []" and d = "''age''" and encode = "\<lambda>d. ''request:'' @ d"
       and i = "''p1''" and v = demo_world]
  note u = createProof_persists_new_record
    [where lib = demo_lib and proofData = "[]" and w = demo_world and e = ValidationError
       and n' = demo_agency and proofId = "''p1''"]
  from t [THEN conjunct1] h
  have a: "createProof demo_lib ''p1'' ''age'' demo_world
     = (Inr fresh_record,
        demo_world\<lparr>proofs := [(''p1'', fresh_record), (''p0'', fresh_record)],
                   trace := [Info (CreatingProof ''p1'' ''age''), Sleep 1000,
                             VcxCall ProofCreate, SaveProof ''p1'']\<rparr>)"
    by (simp add: demo_world_def)
  from t [THEN conjunct2, THEN conjunct2, THEN conjunct2, THEN conjunct2, THEN conjunct2,
          THEN conjunct2, THEN conjunct1, THEN mp, OF v]
  obtain r where
    "fst (createProof (spec_vcx (\<lambda>d. d \<noteq> []) (\<lambda>d. ''request:'' @ d)) ''p1'' ''age'' demo_world)
       = Inr r" and "state r = INITIAL"
    by blast
  with a have c: "state fresh_record = INITIAL"
    by (simp add: demo_lib_def)
  note b = u [THEN conjunct2, THEN conjunct2, THEN conjunct2, THEN conjunct2, THEN conjunct2,
              THEN conjunct1, THEN mp, OF f]
  show ?thesis
    by (intro conjI) (rule h v a c f b [THEN conjunct1] b [THEN conjunct2])+
qed

text \<open>
  Claim C3, as stated: a settling delay lies between the creation of the record and the
  return to the caller, and its duration is a parameter. In the trace of a successful
  \<open>createProof\<close> the sleep comes before the call of \<^verbatim>\<open>Proof.create\<close>, and between
  that call and the return there is the write to the store and no sleep.
\<close>

theorem createProof_settle_counterexample:
  "trace (snd (createProof demo_lib ''p2'' ''age'' demo_world))
     = [Info (CreatingProof ''p2'' ''age''), Sleep 1000, VcxCall ProofCreate, SaveProof ''p2''] \<and>
   \<not> sleeps_after_create (trace (snd (createProof demo_lib ''p2'' ''age'' demo_world)))"
  by (simp add: createProof_run demo_defs sm_defs)

text \<open>
  Claim C3, amended: for every wrapper, every argument and every world, \<open>createProof\<close>
  logs its line, then sleeps for the constant 1000 milliseconds, and only then calls
  \<^verbatim>\<open>Proof.create\<close>; what follows is the write to the store when the creation
  succeeded and nothing when it failed, so no sleep follows the creation. The duration
  depends on no argument of \<open>createProof\<close> and on no collaborator.
\<close>

theorem createProof_fixed_delay_before_create:
  "trace (snd (createProof lib proofId proofData w))
     = trace w @ [Info (CreatingProof proofId proofData), Sleep 1000, VcxCall ProofCreate]
         @ (case fst (proof_create lib proofData (vcx_state w)) of
              Inl e \<Rightarrow> [] | Inr p \<Rightarrow> [SaveProof proofId]) \<and>
   \<not> sleeps_after_create
       (drop (length (trace w)) (trace (snd (createProof lib proofId proofData w))))"
  (is "?order \<and> ?none_after")
proof
  show ?order
    by (simp add: createProof_run split: prod.splits sum.splits)
  then show ?none_after
    by (simp split: sum.splits)
qed

theorem createProof_fixed_delay_before_create_witness:
  "fst (createProof demo_lib ''p2'' [] demo_world) = Inl ValidationError \<and>
   trace (snd (createProof demo_lib ''p2'' [] demo_world))
     = [Info (CreatingProof ''p2'' []), Sleep 1000, VcxCall ProofCreate]"
proof -
  have "fst (proof_create demo_lib [] (vcx_state demo_world)) = Inl ValidationError"
    by (simp add: demo_defs sm_defs)
  with createProof_fixed_delay_before_create [of demo_lib "''p2''" "[]" demo_world]
  show ?thesis by (simp add: createProof_run demo_defs sm_defs)
qed

subsection \<open>sendProofRequest\<close>

text \<open>
  Claim C4: for every \<open>connectionId\<close> that cannot be resolved,
  \<open>sendProofRequest(connectionId, proofId)\<close> fails with \<open>NotFound\<close> and the stored
  proof record for \<open>proofId\<close> is exactly what it was before the call; indeed the whole
  proof store and the wrapper's state are what they were.
\<close>

theorem sendProofRequest_unresolvable_connection:
  assumes "map_of (connections w) connectionId = None"
  shows "fst (sendProofRequest lib connectionId proofId w) = Inl NotFound \<and>
         proofs (snd (sendProofRequest lib connectionId proofId w)) = proofs w \<and>
         map_of (proofs (snd (sendProofRequest lib connectionId proofId w))) proofId
           = map_of (proofs w) proofId \<and>
         vcx_state (snd (sendProofRequest lib connectionId proofId w)) = vcx_state w"
  using assms by (simp add: sendProofRequest_no_connection)

theorem sendProofRequest_unresolvable_connection_witness:
  "map_of (connections demo_world) ''nope'' = None \<and>
   fst (sendProofRequest demo_lib ''nope'' ''p0'' demo_world) = Inl NotFound \<and>
   map_of (proofs (snd (sendProofRequest demo_lib ''nope'' ''p0'' demo_world))) ''p0''
     = Some fresh_record"
proof -
  have h: "map_of (connections demo_world) ''nope'' = None"
    by (simp add: demo_world_def)
  from sendProofRequest_unresolvable_connection [OF h, of demo_lib "''p0''"] h
  show ?thesis by (simp add: demo_world_def)
qed

text \<open>
  Claim C5, as stated: for every resolvable \<open>connectionId\<close> and \<open>proofId\<close>,
  \<open>sendProofRequest\<close> persists the updated record and returns the new state and the
  message. With both ids resolvable and the transport of the connection failing,
  \<open>requestProof\<close> throws \<open>TransportError\<close>: the call fails with it after three
  events, nothing is saved and the record under \<open>p0\<close> is still the \<open>INITIAL\<close> one.
  The same happens with \<open>ValidationError\<close> when the request of \<open>p1\<close> has already
  been sent.
\<close>

theorem sendProofRequest_wrapper_failure_counterexample:
  "map_of (connections down_world) ''conn1'' = Some 7 \<and>
   map_of (proofs down_world) ''p0'' = Some fresh_record \<and>
   sendProofRequest demo_lib ''conn1'' ''p0'' down_world
     = (Inl TransportError,
        down_world\<lparr>trace := [LoadConnection ''conn1'', LoadProof ''p0'',
                              VcxCall RequestProof]\<rparr>) \<and>
   map_of (proofs (snd (sendProofRequest demo_lib ''conn1'' ''p0'' down_world))) ''p0''
     = Some fresh_record \<and>
   state fresh_record = INITIAL \<and>
   map_of (connections demo_world) ''conn1'' = Some 7 \<and>
   map_of (proofs demo_world) ''p1'' = Some demo_record \<and>
   sendProofRequest demo_lib ''conn1'' ''p1'' demo_world
     = (Inl ValidationError,
        demo_world\<lparr>trace := [LoadConnection ''conn1'', LoadProof ''p1'',
                              VcxCall RequestProof]\<rparr>)"
  by (simp add: sendProofRequest_run [where c = 7 and p = fresh_record]
        sendProofRequest_run [where c = 7 and p = demo_record]
        down_world_def demo_defs sm_defs)

text \<open>
  Claim C5, amended: for every resolvable \<open>connectionId\<close> and \<open>proofId\<close>,
  \<open>sendProofRequest\<close> loads the connection, then the proof record, and invokes
  \<open>requestProof\<close> on the record with that connection. When \<open>requestProof\<close>,
  \<open>getState\<close> and \<open>getProofRequestMessage\<close> of the wrapper all succeed, it
  persists the updated record back under \<open>proofId\<close> and returns the record's new
  state and its \<open>proofRequestMessage\<close>. When one of the three throws, the call
  fails with that exception right after the failed call, and whenever the call fails
  the proof store is what it was.
\<close>

theorem sendProofRequest_requests_persists_returns:
  assumes "map_of (connections w) connectionId = Some c"
    and "map_of (proofs w) proofId = Some p"
  shows
   "(proof_requestProof lib p c (vcx_state w) = (Inr p1, n1) \<and>
     proof_getState lib p1 n1 = (Inr (st, p2), n2) \<and>
     proof_getProofRequestMessage lib p2 n2 = (Inr (msg, p3), n3) \<longrightarrow>
       sendProofRequest lib connectionId proofId w =
         (Inr (st, msg),
          w\<lparr>proofs := AList.update proofId p3 (proofs w), vcx_state := n3,
            trace := trace w @ [LoadConnection connectionId, LoadProof proofId,
                                VcxCall RequestProof, VcxCall GetState,
                                VcxCall GetProofRequestMessage, SaveProof proofId]\<rparr>) \<and>
       map_of (proofs (snd (sendProofRequest lib connectionId proofId w))) proofId = Some p3) \<and>
    (proof_requestProof lib p c (vcx_state w) = (Inl e, n1) \<longrightarrow>
       sendProofRequest lib connectionId proofId w =
         (Inl e, w\<lparr>vcx_state := n1,
                   trace := trace w @ [LoadConnection connectionId, LoadProof proofId,
                                       VcxCall RequestProof]\<rparr>)) \<and>
    (proof_requestProof lib p c (vcx_state w) = (Inr p1, n1) \<and>
     proof_getState lib p1 n1 = (Inl e, n2) \<longrightarrow>
       sendProofRequest lib connectionId proofId w =
         (Inl e, w\<lparr>vcx_state := n2,
                   trace := trace w @ [LoadConnection connectionId, LoadProof proofId,
                                       VcxCall RequestProof, VcxCall GetState]\<rparr>)) \<and>
    (proof_requestProof lib p c (vcx_state w) = (Inr p1, n1) \<and>
     proof_getState lib p1 n1 = (Inr (st, p2), n2) \<and>
     proof_getProofRequestMessage lib p2 n2 = (Inl e, n3) \<longrightarrow>
       sendProofRequest lib connectionId proofId w =
         (Inl e, w\<lparr>vcx_state := n3,
                   trace := trace w @ [LoadConnection connectionId, LoadProof proofId,
                                       VcxCall RequestProof, VcxCall GetState,
                                       VcxCall GetProofRequestMessage]\<rparr>)) \<and>
    (isl (fst (sendProofRequest lib connectionId proofId w)) \<longrightarrow>
       proofs (snd (sendProofRequest lib connectionId proofId w)) = proofs w)"
  (is "?success \<and> ?fail_request \<and> ?fail_state \<and> ?fail_message \<and> ?frame")
proof (intro conjI)
  note run = sendProofRequest_run [OF assms, of lib]
  show ?success
    by (simp add: run update_conv')
  show ?fail_request
    by (simp add: run)
  show ?fail_state
    by (simp add: run)
  show ?fail_message
    by (simp add: run)
  show ?frame
    by (simp add: run split: prod.splits sum.splits)
qed

theorem sendProofRequest_requests_persists_returns_witness:
  "map_of (connections demo_world) ''conn1'' = Some 7 \<and>
   map_of (proofs demo_world) ''p0'' = Some fresh_record \<and>
   proof_requestProof demo_lib fresh_record 7 (vcx_state demo_world)
     = (Inr sent_record, sent_agency) \<and>
   proof_getState demo_lib sent_record sent_agency
     = (Inr (REQUEST_SENT, sent_record), sent_agency) \<and>
   proof_getProofRequestMessage demo_lib sent_record sent_agency
     = (Inr (''request:age'', sent_record), sent_agency) \<and>
   sendProofRequest demo_lib ''conn1'' ''p0'' demo_world =
     (Inr (REQUEST_SENT, ''request:age''),
      demo_world\<lparr>proofs := [(''p1'', demo_record), (''p0'', sent_record)],
                 vcx_state := sent_agency,
                 trace := [LoadConnection ''conn1'', LoadProof ''p0'', VcxCall RequestProof,
                           VcxCall GetState, VcxCall GetProofRequestMessage,
                           SaveProof ''p0'']\<rparr>) \<and>
   map_of (connections down_world) ''conn1'' = Some 7 \<and>
   map_of (proofs down_world) ''p0'' = Some fresh_record \<and>
   proof_requestProof demo_lib fresh_record 7 (vcx_state down_world)
     = (Inl TransportError, vcx_state down_world) \<and>
   sendProofRequest demo_lib ''conn1'' ''p0'' down_world
     = (Inl TransportError,
        down_world\<lparr>trace := [LoadConnection ''conn1'', LoadProof ''p0'',
                              VcxCall RequestProof]\<rparr>)"
proof -
  have a: "map_of (connections demo_world) ''conn1'' = Some 7"
    and b: "map_of (proofs demo_world) ''p0'' = Some fresh_record"
    and a': "map_of (connections down_world) ''conn1'' = Some 7"
    and b': "map_of (proofs down_world) ''p0'' = Some fresh_record"
    by (simp_all add: demo_world_def down_world_def)
  have c: "proof_requestProof demo_lib fresh_record 7 (vcx_state demo_world)
             = (Inr sent_record, sent_agency)"
    by (simp add: demo_defs sm_defs)
  have d: "proof_getState demo_lib sent_record sent_agency
             = (Inr (REQUEST_SENT, sent_record), sent_agency)"
    by (simp add: demo_lib_def sm_defs sent_record_def)
  have e: "proof_getProofRequestMessage demo_lib sent_record sent_agency
             = (Inr (''request:age'', sent_record), sent_agency)"
    by (simp add: demo_lib_def sm_defs sent_record_def)
  have f: "proof_requestProof demo_lib fresh_record 7 (vcx_state down_world)
             = (Inl TransportError, vcx_state down_world)"
    by (simp add: down_world_def demo_defs sm_defs)
  note s = sendProofRequest_requests_persists_returns
         [OF a b, where lib = demo_lib and ?p1.0 = sent_record and ?n1.0 = sent_agency
            and st = REQUEST_SENT and ?p2.0 = sent_record and ?n2.0 = sent_agency
            and msg = "''request:age''" and ?p3.0 = sent_record and ?n3.0 = sent_agency,
          THEN conjunct1, THEN mp, OF conjI [OF c conjI [OF d e]], THEN conjunct1]
  from s have g: "sendProofRequest demo_lib ''conn1'' ''p0'' demo_world =
     (Inr (REQUEST_SENT, ''request:age''),
      demo_world\<lparr>proofs := [(''p1'', demo_record), (''p0'', sent_record)],
                 vcx_state := sent_agency,
                 trace := [LoadConnection ''conn1'', LoadProof ''p0'', VcxCall RequestProof,
                           VcxCall GetState, VcxCall GetProofRequestMessage,
                           SaveProof ''p0'']\<rparr>)"
    by (simp add: demo_world_def)
  note x = sendProofRequest_requests_persists_returns
         [OF a' b', where lib = demo_lib and e = TransportError
            and ?n1.0 = "vcx_state down_world",
          THEN conjunct2, THEN conjunct1, THEN mp, OF f]
  from x have h: "sendProofRequest demo_lib ''conn1'' ''p0'' down_world
     = (Inl TransportError,
        down_world\<lparr>trace := [LoadConnection ''conn1'', LoadProof ''p0'',
                              VcxCall RequestProof]\<rparr>)"
    by (simp add: down_world_def demo_world_def)
  show ?thesis
    by (intro conjI) (rule a b c d e g a' b' f h)+
qed

text \<open>
  Claim C9: \<open>sendProofRequest\<close> resolves the \<open>connectionId\<close> before it loads the
  proof record. When neither id can be resolved, the call fails with \<open>NotFound\<close>
  after the connection lookup alone: that lookup is the only event added to the trace,
  so the proof store is neither read nor written.
\<close>

theorem sendProofRequest_connection_first:
  assumes "map_of (connections w) connectionId = None"
    and "map_of (proofs w) proofId = None"
  shows "sendProofRequest lib connectionId proofId w
           = (Inl NotFound, w\<lparr>trace := trace w @ [LoadConnection connectionId]\<rparr>) \<and>
         \<not> list_ex touches_proof_store
             (drop (length (trace w))
                (trace (snd (sendProofRequest lib connectionId proofId w))))"
  using assms by (simp add: sendProofRequest_no_connection)

theorem sendProofRequest_connection_first_witness:
  "map_of (connections demo_world) ''nope'' = None \<and>
   map_of (proofs demo_world) ''p9'' = None \<and>
   sendProofRequest demo_lib ''nope'' ''p9'' demo_world
     = (Inl NotFound, demo_world\<lparr>trace := [LoadConnection ''nope'']\<rparr>)"
proof -
  have h: "map_of (connections demo_world) ''nope'' = None"
    and k: "map_of (proofs demo_world) ''p9'' = None"
    by (simp_all add: demo_world_def)
  from sendProofRequest_connection_first [OF h k, of demo_lib] h k
  show ?thesis by (simp add: demo_world_def)
qed

subsection \<open>proofUpdate\<close>

text \<open>
  Claim C6: for every proof record in \<open>REQUEST_SENT\<close> state, a \<open>proofUpdate\<close> poll
  during which no new message of the counterparty has arrived is a no-op: the returned
  state equals the prior state and the stored record's value is unchanged. The poll is
  that of the specification's state machine, over a connection that resolves and whose
  transport works; the service writes the record back, with the value it had.
\<close>

theorem proofUpdate_no_message_noop:
  assumes "map_of (proofs w) proofId = Some p"
    and "state p = REQUEST_SENT"
    and "map_of (connections w) connectionId = Some c"
    and "map_of (inbox (vcx_state w)) c = None"
    and "c \<notin> set (down (vcx_state w))"
  shows "fst (proofUpdate (spec_vcx valid encode) proofId connectionId w) = Inr (state p) \<and>
         proofs (snd (proofUpdate (spec_vcx valid encode) proofId connectionId w)) = proofs w \<and>
         map_of (proofs (snd (proofUpdate (spec_vcx valid encode) proofId connectionId w))) proofId
           = Some p \<and>
         connections (snd (proofUpdate (spec_vcx valid encode) proofId connectionId w))
           = connections w \<and>
         vcx_state (snd (proofUpdate (spec_vcx valid encode) proofId connectionId w))
           = vcx_state w"
  using assms by (simp add: proofUpdate_run sm_defs update_triv)

theorem proofUpdate_no_message_noop_witness:
  "map_of (proofs demo_world) ''p1'' = Some demo_record \<and>
   state demo_record = REQUEST_SENT \<and>
   map_of (connections demo_world) ''conn1'' = Some 7 \<and>
   map_of (inbox (vcx_state demo_world)) 7 = None \<and>
   7 \<notin> set (down (vcx_state demo_world)) \<and>
   fst (proofUpdate demo_lib ''p1'' ''conn1'' demo_world) = Inr REQUEST_SENT \<and>
   proofs (snd (proofUpdate demo_lib ''p1'' ''conn1'' demo_world)) = proofs demo_world"
proof -
  have a: "map_of (proofs demo_world) ''p1'' = Some demo_record"
    and b: "state demo_record = REQUEST_SENT"
    and c: "map_of (connections demo_world) ''conn1'' = Some 7"
    and d: "map_of (inbox (vcx_state demo_world)) 7 = None"
    and e: "7 \<notin> set (down (vcx_state demo_world))"
    by (simp_all add: demo_defs)
  from proofUpdate_no_message_noop [OF a b c d e, of "\<lambda>d. d \<noteq> []" "\<lambda>d. ''request:'' @ d"]
  have "fst (proofUpdate demo_lib ''p1'' ''conn1'' demo_world) = Inr REQUEST_SENT \<and>
        proofs (snd (proofUpdate demo_lib ''p1'' ''conn1'' demo_world)) = proofs demo_world"
    by (simp add: demo_lib_def b)
  with a b c d e show ?thesis by blast
qed

subsection \<open>getState, printInfo and getVcxProof\<close>

text \<open>
  Claim C7: for every \<open>proofId\<close>, \<open>getState(proofId)\<close> is a pure read: it modifies
  neither the proof record nor the proof store, and it fails with \<open>NotFound\<close> exactly
  when no record exists under \<open>proofId\<close>. For every wrapper the stores are left as
  they were, nothing is saved, and the result is \<open>NotFound\<close> for an absent record
  and otherwise what the wrapper's \<open>getState\<close> gives on the stored record. With the
  state machine of the specification, whose \<open>getState\<close> is a pure read, that is the
  state of the stored record, the failure is \<open>NotFound\<close> exactly for an absent
  record, and the world changes by the trace alone.
\<close>

theorem getState_pure_read:
  "proofs (snd (getState lib proofId w)) = proofs w \<and>
   connections (snd (getState lib proofId w)) = connections w \<and>
   SaveProof k \<notin> set (drop (length (trace w)) (trace (snd (getState lib proofId w)))) \<and>
   fst (getState lib proofId w)
     = (case map_of (proofs w) proofId of
          None \<Rightarrow> Inl NotFound
        | Some p \<Rightarrow>
            (case fst (proof_getState lib p (vcx_state w)) of
               Inl e \<Rightarrow> Inl e
             | Inr (st, p') \<Rightarrow> Inr st)) \<and>
   (fst (getState (spec_vcx valid encode) i v) = Inl NotFound
      \<longleftrightarrow> map_of (proofs v) i = None) \<and>
   getState (spec_vcx valid encode) i v
     = (case map_of (proofs v) i of
          None \<Rightarrow> (Inl NotFound, v\<lparr>trace := trace v @ [LoadProof i]\<rparr>)
        | Some p \<Rightarrow>
            (Inr (state p), v\<lparr>trace := trace v @ [LoadProof i, VcxCall GetState]\<rparr>))"
  (is "?proofs \<and> ?connections \<and> ?no_save \<and> ?result \<and> ?not_found \<and> ?spec_run")
proof (intro conjI)
  show ?proofs
    by (simp add: getState_run split: option.splits prod.splits sum.splits)
  show ?connections
    by (simp add: getState_run split: option.splits prod.splits sum.splits)
  show ?no_save
    by (simp add: getState_run split: option.splits prod.splits sum.splits)
  show ?result
    by (auto simp: getState_run split: option.splits prod.splits sum.splits)
  show ?spec_run
    by (rule getState_spec)
  then show ?not_found
    by (simp split: option.splits)
qed

theorem getState_pure_read_witness:
  "map_of (proofs demo_world) ''p1'' = Some demo_record \<and>
   getState demo_lib ''p1'' demo_world
     = (Inr REQUEST_SENT, demo_world\<lparr>trace := [LoadProof ''p1'', VcxCall GetState]\<rparr>) \<and>
   map_of (proofs demo_world) ''missing'' = None \<and>
   getState demo_lib ''missing'' demo_world
     = (Inl NotFound, demo_world\<lparr>trace := [LoadProof ''missing'']\<rparr>)"
proof -
  have a: "map_of (proofs demo_world) ''p1'' = Some demo_record"
    and b: "map_of (proofs demo_world) ''missing'' = None"
    by (simp_all add: demo_world_def)
  note t1 = getState_pure_read
    [where valid = "\<lambda>d. d \<noteq> []" and encode = "\<lambda>d. ''request:'' @ d" and v = demo_world
       and i = "''p1''",
     THEN conjunct2, THEN conjunct2, THEN conjunct2, THEN conjunct2, THEN conjunct2]
  note t2 = getState_pure_read
    [where valid = "\<lambda>d. d \<noteq> []" and encode = "\<lambda>d. ''request:'' @ d" and v = demo_world
       and i = "''missing''",
     THEN conjunct2, THEN conjunct2, THEN conjunct2, THEN conjunct2, THEN conjunct2]
  from t1 a
  have c: "getState demo_lib ''p1'' demo_world
     = (Inr REQUEST_SENT, demo_world\<lparr>trace := [LoadProof ''p1'', VcxCall GetState]\<rparr>)"
    by (simp add: demo_defs)
  from t2 b
  have d: "getState demo_lib ''missing'' demo_world
     = (Inl NotFound, demo_world\<lparr>trace := [LoadProof ''missing'']\<rparr>)"
    by (simp add: demo_defs)
  show ?thesis
    by (intro conjI) (rule a b c d)+
qed

text \<open>
  Claim C2, as stated: a failure while reading the state of one id does not abort the
  processing of the remaining ids. The loop has no handler: with an unknown id first
  and the existing \<open>p1\<close> second, \<open>printInfo\<close> fails with \<open>NotFound\<close>, and the
  trace holds the failed load alone; nothing is logged and \<open>p1\<close> is never read.
\<close>

theorem printInfo_aborts_counterexample:
  "map_of (proofs demo_world) ''p1'' = Some demo_record \<and>
   printInfo demo_lib [''missing'', ''p1''] demo_world
     = (Inl NotFound, demo_world\<lparr>trace := [LoadProof ''missing'']\<rparr>)"
  by (simp add: getState_run await_def demo_defs)

text \<open>
  Claim C2, amended: \<open>printInfo\<close> processes the ids in order. On the empty list it
  returns at once. For an id whose state is read without failure it emits one info line
  with that id and state and goes on with the remaining ids. The first failure while
  reading the state of an id ends the call with that failure: if the ids before \<open>bad\<close>
  are processed and lead to the world \<open>w1\<close>, and \<open>getState\<close> of \<open>bad\<close> fails
  there with \<open>e\<close> in the world \<open>w2\<close>, then \<open>printInfo\<close> returns \<open>e\<close> in \<open>w2\<close>
  whatever ids follow, so the failure is not logged and the remaining ids are not
  processed. With the state machine of the specification the trace is explicit: the
  load, the state read and the info line for each known id in order and, at the first
  unknown id, its load and \<open>NotFound\<close>.
\<close>

theorem printInfo_stops_at_first_failure:
  "printInfo lib [] w = (Inr (), w) \<and>
   (getState lib i w = (Inr st, w') \<longrightarrow>
      printInfo lib (i # ids) w
        = printInfo lib ids (w'\<lparr>trace := trace w' @ [Info (ProofStateLine i st)]\<rparr>)) \<and>
   (printInfo lib pre w = (Inr (), w1) \<and> getState lib bad w1 = (Inl e, w2) \<longrightarrow>
      printInfo lib (pre @ bad # post) w = (Inl e, w2)) \<and>
   ((\<forall>k \<in> set known. map_of (proofs v) k \<noteq> None) \<longrightarrow>
      printInfo (spec_vcx valid encode) known v
        = (Inr (), v\<lparr>trace := trace v @ concat (map (info_events (proofs v)) known)\<rparr>)) \<and>
   ((\<forall>k \<in> set known. map_of (proofs v) k \<noteq> None) \<and> map_of (proofs v) unknown = None \<longrightarrow>
      printInfo (spec_vcx valid encode) (known @ unknown # rest) v
        = (Inl NotFound,
           v\<lparr>trace := trace v @ concat (map (info_events (proofs v)) known)
                         @ [LoadProof unknown]\<rparr>))"
  (is "?empty \<and> ?step \<and> ?abort \<and> ?all_known \<and> ?first_unknown")
proof (intro conjI)
  show ?empty
    by (simp add: ret_def)
  show ?step
    by (simp add: await_def logger_info_def emit_def)
  show abort: ?abort
    by (simp add: printInfo_append await_def)
  show ?all_known
    by (simp add: printInfo_spec_known)
  show ?first_unknown
  proof
    assume a: "(\<forall>k \<in> set known. map_of (proofs v) k \<noteq> None) \<and> map_of (proofs v) unknown = None"
    let ?v1 = "v\<lparr>trace := trace v @ concat (map (info_events (proofs v)) known)\<rparr>"
    from a have k: "printInfo (spec_vcx valid encode) known v = (Inr (), ?v1)"
      by (simp add: printInfo_spec_known)
    from a have "getState (spec_vcx valid encode) unknown ?v1
                   = (Inl NotFound, ?v1\<lparr>trace := trace ?v1 @ [LoadProof unknown]\<rparr>)"
      by (simp add: getState_spec)
    with k show "printInfo (spec_vcx valid encode) (known @ unknown # rest) v
        = (Inl NotFound,
           v\<lparr>trace := trace v @ concat (map (info_events (proofs v)) known)
                         @ [LoadProof unknown]\<rparr>)"
      by (simp add: printInfo_append await_def)
  qed
qed

theorem printInfo_stops_at_first_failure_witness:
  "getState demo_lib ''p1'' demo_world
     = (Inr REQUEST_SENT, demo_world\<lparr>trace := [LoadProof ''p1'', VcxCall GetState]\<rparr>) \<and>
   printInfo demo_lib [''p1''] demo_world
     = (Inr (), demo_world\<lparr>trace := [LoadProof ''p1'', VcxCall GetState,
                                      Info (ProofStateLine ''p1'' REQUEST_SENT)]\<rparr>) \<and>
   getState demo_lib ''missing''
       (demo_world\<lparr>trace := [LoadProof ''p1'', VcxCall GetState,
                             Info (ProofStateLine ''p1'' REQUEST_SENT)]\<rparr>)
     = (Inl NotFound,
        demo_world\<lparr>trace := [LoadProof ''p1'', VcxCall GetState,
                              Info (ProofStateLine ''p1'' REQUEST_SENT),
                              LoadProof ''missing'']\<rparr>) \<and>
   printInfo demo_lib [''p1'', ''missing'', ''p0''] demo_world
     = (Inl NotFound,
        demo_world\<lparr>trace := [LoadProof ''p1'', VcxCall GetState,
                              Info (ProofStateLine ''p1'' REQUEST_SENT),
                              LoadProof ''missing'']\<rparr>) \<and>
   printInfo demo_lib [''p1'', ''p0''] demo_world
     = (Inr (),
        demo_world\<lparr>trace := [LoadProof ''p1'', VcxCall GetState,
                              Info (ProofStateLine ''p1'' REQUEST_SENT),
                              LoadProof ''p0'', VcxCall GetState,
                              Info (ProofStateLine ''p0'' INITIAL)]\<rparr>)"
proof -
  let ?w0 = "demo_world\<lparr>trace := [LoadProof ''p1'', VcxCall GetState]\<rparr>"
  let ?w1 = "demo_world\<lparr>trace := [LoadProof ''p1'', VcxCall GetState,
                                   Info (ProofStateLine ''p1'' REQUEST_SENT)]\<rparr>"
  let ?w2 = "demo_world\<lparr>trace := [LoadProof ''p1'', VcxCall GetState,
                                   Info (ProofStateLine ''p1'' REQUEST_SENT),
                                   LoadProof ''missing'']\<rparr>"
  note t = printInfo_stops_at_first_failure
    [where lib = demo_lib and i = "''p1''" and st = REQUEST_SENT and w = demo_world
       and w' = ?w0 and ids = "[]" and pre = "[''p1'']" and ?w1.0 = ?w1 and bad = "''missing''"
       and e = NotFound and ?w2.0 = ?w2 and post = "[''p0'']"
       and known = "[''p1'', ''p0'']" and v = demo_world
       and valid = "\<lambda>d. d \<noteq> []" and encode = "\<lambda>d. ''request:'' @ d"]
  have g: "getState demo_lib ''p1'' demo_world = (Inr REQUEST_SENT, ?w0)"
    by (simp add: getState_run demo_defs sm_defs)
  have "printInfo demo_lib [] ?w1 = (Inr (), ?w1)"
    by (simp add: ret_def)
  with t [THEN conjunct2, THEN conjunct1, THEN mp, OF g]
  have a: "printInfo demo_lib [''p1''] demo_world = (Inr (), ?w1)"
    by simp
  have b: "getState demo_lib ''missing'' ?w1 = (Inl NotFound, ?w2)"
    by (simp add: getState_run demo_defs)
  from t [THEN conjunct2, THEN conjunct2, THEN conjunct1, THEN mp, OF conjI [OF a b]]
  have c: "printInfo demo_lib [''p1'', ''missing'', ''p0''] demo_world = (Inl NotFound, ?w2)"
    by simp
  have k: "\<forall>k \<in> set [''p1'', ''p0'']. map_of (proofs demo_world) k \<noteq> None"
    by (simp add: demo_world_def)
  from t [THEN conjunct2, THEN conjunct2, THEN conjunct2, THEN conjunct1, THEN mp, OF k]
  have d: "printInfo demo_lib [''p1'', ''p0''] demo_world
     = (Inr (),
        demo_world\<lparr>trace := [LoadProof ''p1'', VcxCall GetState,
                              Info (ProofStateLine ''p1'' REQUEST_SENT),
                              LoadProof ''p0'', VcxCall GetState,
                              Info (ProofStateLine ''p0'' INITIAL)]\<rparr>)"
    by (simp add: demo_defs info_events_def)
  show ?thesis
    by (intro conjI) (rule g a b c d)+
qed

text \<open>
  Claim C10: the service has an operation \<open>getVcxProof(proofId)\<close> that returns exactly
  the record stored under \<open>proofId\<close> and fails with \<open>NotFound\<close> when there is none;
  apart from the warning it logs and the load itself, it does nothing.
\<close>

theorem getVcxProof_passthrough:
  "getVcxProof proofId w
     = ((case map_of (proofs w) proofId of None \<Rightarrow> Inl NotFound | Some p \<Rightarrow> Inr p),
        w\<lparr>trace := trace w @ [Warn GetVcxProofNotRecommended, LoadProof proofId]\<rparr>)"
  by (simp add: getVcxProof_def prog_defs split: option.splits)

theorem getVcxProof_passthrough_witness:
  "getVcxProof ''p1'' demo_world
     = (Inr demo_record,
        demo_world\<lparr>trace := [Warn GetVcxProofNotRecommended, LoadProof ''p1'']\<rparr>) \<and>
   getVcxProof ''missing'' demo_world
     = (Inl NotFound,
        demo_world\<lparr>trace := [Warn GetVcxProofNotRecommended, LoadProof ''missing'']\<rparr>)"
  using getVcxProof_passthrough [of "''p1''" demo_world]
    getVcxProof_passthrough [of "''missing''" demo_world]
  by (simp add: demo_world_def)

subsection \<open>The cached proof request message\<close>

text \<open>
  Claim C8: after \<open>requestProof\<close> has run on a proof record, calling
  \<open>getProofRequestMessage\<close> twice in succession on that record returns the same
  output both times, without generating or sending the message again: both calls
  return the message generated by \<open>requestProof\<close>, and the record and the agency
  (with its list of sent messages) are after the two calls what they were before.
\<close>

theorem getProofRequestMessage_twice_identical:
  assumes "proof_requestProof (spec_vcx valid encode) p c n = (Inr p1, n1)"
  shows "twice (proof_getProofRequestMessage (spec_vcx valid encode)) p1 n1
           = (Inr ((encode (proofRequestPayload p), encode (proofRequestPayload p)), p1), n1)"
  using assms
  by (auto simp: twice_def sm_defs split: if_splits)

theorem getProofRequestMessage_twice_identical_witness:
  "proof_requestProof demo_lib fresh_record 7 demo_agency = (Inr sent_record, sent_agency) \<and>
   twice (proof_getProofRequestMessage demo_lib) sent_record sent_agency
     = (Inr ((''request:age'', ''request:age''), sent_record), sent_agency)"
proof -
  have c: "proof_requestProof (spec_vcx (\<lambda>d. d \<noteq> []) (\<lambda>d. ''request:'' @ d))
             fresh_record 7 demo_agency = (Inr sent_record, sent_agency)"
    by (simp add: demo_defs sm_defs)
  from getProofRequestMessage_twice_identical [OF c] c
  show ?thesis by (simp add: demo_lib_def fresh_record_def)
qed

end
